theory Spec2Isabelle
  imports Main
begin

section \<open>Python text operations\<close>

text \<open>
  A Python \<open>str\<close> is modelled as a \<open>string\<close>, each \<open>char\<close> read as the code point
  of that number (the code points below 256). The predicates below are the
  restrictions of \<open>str.isspace\<close>, of the line boundaries of \<open>str.splitlines\<close> and of
  \<open>str.lower\<close> to that range.
\<close>

definition is_space :: "char \<Rightarrow> bool" where
  "is_space c \<longleftrightarrow> of_char c \<in> set [9, 10, 11, 12, 13, 28, 29, 30, 31, 32, 133, 160 :: nat]"

definition is_linebreak :: "char \<Rightarrow> bool" where
  "is_linebreak c \<longleftrightarrow> of_char c \<in> set [10, 11, 12, 13, 28, 29, 30, 133 :: nat]"

definition lstrip :: "string \<Rightarrow> string" where
  "lstrip s = dropWhile is_space s"

definition rstrip :: "string \<Rightarrow> string" where
  "rstrip s = rev (dropWhile is_space (rev s))"

definition strip :: "string \<Rightarrow> string" where
  "strip s = rstrip (lstrip s)"

definition lower_char :: "char \<Rightarrow> char" where
  "lower_char c =
     (let n = (of_char c :: nat)
      in if (65 \<le> n \<and> n \<le> 90) \<or> (192 \<le> n \<and> n \<le> 222 \<and> n \<noteq> 215)
         then char_of (n + 32) else c)"

definition lower :: "string \<Rightarrow> string" where
  "lower s = map lower_char s"

text \<open>\<open>s.startswith(p)\<close> for one prefix and for a tuple of prefixes.\<close>

fun startswith :: "string \<Rightarrow> string \<Rightarrow> bool" where
  "startswith s [] = True"
| "startswith [] (p # ps) = False"
| "startswith (c # cs) (p # ps) = (c = p \<and> startswith cs ps)"

definition startswith_any :: "string \<Rightarrow> string list \<Rightarrow> bool" where
  "startswith_any s ps = list_ex (startswith s) ps"

text \<open>\<open>d in s\<close> on two strings: \<open>d\<close> occurs in \<open>s\<close> as a contiguous run.\<close>

fun str_contains :: "string \<Rightarrow> string \<Rightarrow> bool" where
  "str_contains d [] = (d = [])"
| "str_contains d (c # cs) = (startswith (c # cs) d \<or> str_contains d cs)"

text \<open>
  \<open>s.splitlines()\<close>: the text is cut at every line boundary, \<open>\r\n\<close> counting as one;
  the boundaries are dropped, and a boundary at the very end opens no further line.
  \<open>cur\<close> is the line read so far.
\<close>

fun splitlines_from :: "string \<Rightarrow> string \<Rightarrow> string list" where
  "splitlines_from cur [] = (if cur = [] then [] else [cur])"
| "splitlines_from cur [c] = (if is_linebreak c then [cur] else [cur @ [c]])"
| "splitlines_from cur (c # d # cs) =
     (if c = CHR 0x0D \<and> d = CHR 0x0A then cur # splitlines_from [] cs
      else if is_linebreak c then cur # splitlines_from [] (d # cs)
      else splitlines_from (cur @ [c]) (d # cs))"

definition splitlines :: "string \<Rightarrow> string list" where
  "splitlines s = splitlines_from [] s"


section \<open>Exceptions and the outside world\<close>

text \<open>
  Every \<open>raise\<close> of the source is a value: a function that can raise returns
  \<open>exn + 'a\<close>, \<open>Inl\<close> for the exception. The libraries the program calls
  (\<open>urllib\<close>, \<open>requests\<close>, \<open>bs4\<close>, \<open>PyPDF2\<close>) are not part of the repository;
  each call into them is a parameter of the function that makes it, giving the
  call's result or the exception it raises.
\<close>

datatype exn = RequestException | JSONDecodeError | AttributeError | KeyError
  | ValueError | PdfReadError | ParserError

text \<open>\<open>xs[:n]\<close> for a Python integer \<open>n\<close>: a negative \<open>n\<close> counts from the end.\<close>

definition py_prefix :: "int \<Rightarrow> 'a list \<Rightarrow> 'a list" where
  "py_prefix n xs = (if 0 \<le> n then take (nat n) xs else take (length xs - nat (- n)) xs)"

section \<open>Domain filter\<close>

text \<open>
  \<^verbatim>\<open>TRUSTED_LIT_DOMAINS = [".edu", "springer", "sciencedirect", "arxiv", "researchgate", "acm", "ieee"]

def is_scholar_url(url):
    try:
        return any(d in urlparse(url).netloc.lower() for d in TRUSTED_LIT_DOMAINS)
    except Exception:
        return False\<close>

  The parameter \<open>netloc\<close> is \<open>urlparse(url).netloc\<close>: the network location of the
  URL, or the exception \<open>urlparse\<close> raises on a URL it cannot parse.
\<close>

definition TRUSTED_LIT_DOMAINS :: "string list" where
  "TRUSTED_LIT_DOMAINS =
     [''.edu'', ''springer'', ''sciencedirect'', ''arxiv'', ''researchgate'', ''acm'', ''ieee'']"

definition is_scholar_url :: "(string \<Rightarrow> exn + string) \<Rightarrow> string \<Rightarrow> bool" where
  "is_scholar_url netloc url =
     (case netloc url of
        Inl e \<Rightarrow> False
      | Inr loc \<Rightarrow> list_ex (\<lambda>d. str_contains d (lower loc)) TRUSTED_LIT_DOMAINS)"


section \<open>Search client\<close>

text \<open>
  The request sent to the search API (the constant API key left out) and what
  \<open>requests.get(...).json()\<close> gives back: the request raises, the body is not
  JSON, the body is JSON but no object, or it is an object whose
  \<open>organic_results\<close> entry, when present, is a list of results, each with an
  optional \<open>link\<close> and an optional \<open>url\<close> string.
\<close>

record serp_params =
  p_engine :: string
  p_q :: string
  p_num :: int
  p_start :: int

record organic =
  r_link :: "string option"
  r_url :: "string option"

datatype json_body = Json_object "organic list option" | Json_other

datatype http_reply = Request_raises | Body_not_json | Body json_body

type_synonym search_api = "serp_params \<Rightarrow> http_reply"

datatype kind = Kt | Ks | Kprev | Klit

text \<open>Python truth of \<open>x.get(key)\<close>: a missing key and the empty string are false.\<close>

definition truthy :: "string option \<Rightarrow> bool" where
  "truthy v = (case v of None \<Rightarrow> False | Some u \<Rightarrow> u \<noteq> [])"

definition link_or_url :: "organic \<Rightarrow> string option" where
  "link_or_url x = (if truthy (r_link x) then r_link x else r_url x)"

definition raw_links :: "organic list \<Rightarrow> string list" where
  "raw_links rs = [the (link_or_url x). x \<leftarrow> rs, truthy (link_or_url x)]"

text \<open>
  \<^verbatim>\<open>def serp_links(q, n=3, start=0, *, engine="google", lit=False, kind=None):
    resp = requests.get("https://serpapi.com/search", params={...}, timeout=15).json()
    raw = [x.get("link") or x.get("url") for x in resp.get("organic_results", []) if x.get("link") or x.get("url")]
    links = [u for u in raw if is_scholar_url(u)] if lit else raw[:n]
    if kind:
        links = [u for u in links if u not in st.session_state["rejected"][kind]]
    return links\<close>

  \<open>rej\<close> is \<open>st.session_state["rejected"]\<close>. There is no \<open>try\<close> in the function:
  an exception of the request or of the decoding leaves it.
\<close>

definition serp_links ::
  "(string \<Rightarrow> exn + string) \<Rightarrow> search_api \<Rightarrow> (kind \<Rightarrow> string set) \<Rightarrow>
   string \<Rightarrow> int \<Rightarrow> int \<Rightarrow> string \<Rightarrow> bool \<Rightarrow> kind option \<Rightarrow> exn + string list" where
  "serp_links netloc api rej q n start engine lit kind =
     (case api \<lparr>p_engine = engine, p_q = q, p_num = n, p_start = start\<rparr> of
        Request_raises \<Rightarrow> Inl RequestException
      | Body_not_json \<Rightarrow> Inl JSONDecodeError
      | Body Json_other \<Rightarrow> Inl AttributeError
      | Body (Json_object res) \<Rightarrow>
          (let raw = raw_links (case res of None \<Rightarrow> [] | Some rs \<Rightarrow> rs);
               links = (if lit then filter (is_scholar_url netloc) raw else py_prefix n raw)
           in Inr (case kind of
                     None \<Rightarrow> links
                   | Some k \<Rightarrow> filter (\<lambda>u. u \<notin> rej k) links)))"

section \<open>Content fetcher\<close>

text \<open>
  What the code reads from the parsed page: the \<open>html\<close> element (absent, or with
  its optional \<open>lang\<close> attribute), the \<open>meta\<close> elements in document order, each
  with its optional \<open>http-equiv\<close> and \<open>content\<close> attributes as written in the
  page, and the visible text \<open>soup.get_text(" ", strip=True)\<close>.
\<close>

record meta_tag =
  m_http_equiv :: "string option"
  m_content :: "string option"

record soup =
  soup_html :: "string option option"
  soup_metas :: "meta_tag list"
  soup_text :: string

text \<open>
  \<open>soup.find("meta", attrs={"http-equiv": "content-language"})\<close>: the first
  \<open>meta\<close> element whose \<open>http-equiv\<close> attribute is that string, compared as it
  is written.
\<close>

definition find_meta :: "soup \<Rightarrow> meta_tag option" where
  "find_meta sp = List.find (\<lambda>m. m_http_equiv m = Some ''content-language'') (soup_metas sp)"

text \<open>
  \<^verbatim>\<open>def is_english(soup):
    lang = soup.html.get("lang", "") if soup.html else ""
    if not lang:
        meta = soup.find("meta", attrs={"http-equiv": "content-language"})
        lang = meta.get("content", "") if meta else ""
    return (not lang) or lang.lower().startswith("en")\<close>
\<close>

definition attr_or_empty :: "string option option \<Rightarrow> string" where
  "attr_or_empty tag = (case tag of None \<Rightarrow> [] | Some None \<Rightarrow> [] | Some (Some v) \<Rightarrow> v)"

definition is_english :: "soup \<Rightarrow> bool" where
  "is_english sp =
     (let lang = attr_or_empty (soup_html sp);
          lang = (if lang = [] then attr_or_empty (map_option m_content (find_meta sp)) else lang)
      in lang = [] \<or> startswith (lower lang) ''en'')"

text \<open>
  \<^verbatim>\<open>def fetch_text(url, max_chars=8000):
    try:
        soup = bs4.BeautifulSoup(requests.get(url, timeout=10).text, "html.parser")
        if st.session_state["only_eng"] and not is_english(soup):
            return ""
        return soup.get_text(" ", strip=True)[:max_chars]
    except Exception:
        return ""\<close>

  \<open>get_page\<close> is \<open>requests.get(url, timeout=10).text\<close>, \<open>parse\<close> is the
  \<open>BeautifulSoup\<close> constructor, \<open>only_eng\<close> is \<open>st.session_state["only_eng"]\<close>.
  \<open>fetch_text_try\<close> is the body of the \<open>try\<close>.
\<close>

definition fetch_text_try ::
  "(string \<Rightarrow> exn + string) \<Rightarrow> (string \<Rightarrow> exn + soup) \<Rightarrow> bool \<Rightarrow> string \<Rightarrow> int \<Rightarrow> exn + string" where
  "fetch_text_try get_page parse only_eng url max_chars =
     (case get_page url of
        Inl e \<Rightarrow> Inl e
      | Inr body \<Rightarrow>
          (case parse body of
             Inl e \<Rightarrow> Inl e
           | Inr sp \<Rightarrow>
               if only_eng \<and> \<not> is_english sp then Inr []
               else Inr (py_prefix max_chars (soup_text sp))))"

definition fetch_text ::
  "(string \<Rightarrow> exn + string) \<Rightarrow> (string \<Rightarrow> exn + soup) \<Rightarrow> bool \<Rightarrow> string \<Rightarrow> int \<Rightarrow> string" where
  "fetch_text get_page parse only_eng url max_chars =
     (case fetch_text_try get_page parse only_eng url max_chars of
        Inl e \<Rightarrow> []
      | Inr text \<Rightarrow> text)"

text \<open>
  The language a page declares, in the specification's words: the \<open>lang\<close>
  attribute of the root element when it is there and not empty, otherwise the
  content of the content-language meta element when that is there and not
  empty, otherwise none. The name of an \<open>http-equiv\<close> header does not depend on
  the case it is written in, so here the meta element is the first one whose
  \<open>http-equiv\<close> is \<open>content-language\<close> in any case.
\<close>

definition is_content_language :: "meta_tag \<Rightarrow> bool" where
  "is_content_language m =
     (case m_http_equiv m of None \<Rightarrow> False | Some h \<Rightarrow> lower h = ''content-language'')"

definition nonempty :: "string \<Rightarrow> string option" where
  "nonempty v = (if v = [] then None else Some v)"

definition declared_language :: "soup \<Rightarrow> string option" where
  "declared_language sp =
     (case nonempty (attr_or_empty (soup_html sp)) of
        Some l \<Rightarrow> Some l
      | None \<Rightarrow>
          nonempty (attr_or_empty (map_option m_content (List.find is_content_language (soup_metas sp)))))"

text \<open>Every content-language meta element of the page writes the header name in lower case.\<close>

definition metas_lower_case :: "soup \<Rightarrow> bool" where
  "metas_lower_case sp =
     list_all (\<lambda>m. is_content_language m \<longrightarrow> m_http_equiv m = Some ''content-language'')
       (soup_metas sp)"

section \<open>PDF excerpts\<close>

text \<open>
  \<^verbatim>\<open>def pdf_to_text(file):
    return "".join(p.extract_text() or "" for p in PdfReader(file).pages[:3])\<close>

  \<open>reader\<close> is \<open>PdfReader(file).pages\<close>: the pages of the document, or the
  exception the reader raises. A page is what its \<open>extract_text()\<close> does: it
  raises, returns \<open>None\<close>, or returns a text.
\<close>

datatype page = Extract_raises exn | Extract_none | Extract_text string

fun join_pages :: "page list \<Rightarrow> exn + string" where
  "join_pages [] = Inr []"
| "join_pages (Extract_raises e # ps) = Inl e"
| "join_pages (Extract_none # ps) = join_pages ps"
| "join_pages (Extract_text t # ps) =
     (case join_pages ps of Inl e \<Rightarrow> Inl e | Inr r \<Rightarrow> Inr (t @ r))"

definition pdf_to_text :: "('f \<Rightarrow> exn + page list) \<Rightarrow> 'f \<Rightarrow> exn + string" where
  "pdf_to_text reader file =
     (case reader file of
        Inl e \<Rightarrow> Inl e
      | Inr pages \<Rightarrow> join_pages (py_prefix 3 pages))"

section \<open>Session state and link curation\<close>

text \<open>
  The part of \<open>st.session_state\<close> the link handlers use. \<open>links k\<close> is the list
  stored under \<open>t_links\<close>, \<open>s_links\<close>, \<open>prev_links\<close> or \<open>lit_links\<close>; a key not yet
  stored reads as the empty list everywhere the code reads it. \<open>n_results\<close> has
  no default. The question lists and the \<open>only_eng\<close> flag play no part in the
  handlers below and are left out.
\<close>

record query_meta =
  meta_q :: string
  meta_lit :: bool
  meta_engine :: string

record session =
  accepted :: "kind \<Rightarrow> string set"
  rejected :: "kind \<Rightarrow> string set"
  queries :: "kind \<rightharpoonup> query_meta"
  start_index :: "kind \<Rightarrow> int"
  links :: "kind \<Rightarrow> string list"
  n_results :: "int option"

definition session_defaults :: session where
  "session_defaults =
     \<lparr>accepted = (\<lambda>k. {}), rejected = (\<lambda>k. {}), queries = Map.empty,
      start_index = (\<lambda>k. 0), links = (\<lambda>k. []), n_results = None\<rparr>"

text \<open>
  A handler ends normally or by an exception that stops the script run; the
  session state keeps what was written before the exception.
\<close>

type_synonym outcome = "exn option \<times> session"

record checkboxes =
  chk_tender :: bool
  chk_supplier :: bool
  chk_prev :: bool
  chk_lit :: bool

text \<open>
  One category block of the \<open>Fetch links\<close> handler:
  \<^verbatim>\<open>st.session_state.queries[k] = {"q": query, "lit": lit, "engine": "google"}
st.session_state[k + "_links"] = serp_links(query, n, lit=lit, kind=k)
st.session_state.start_index[k] = n\<close>
\<close>

definition fetch_category ::
  "(string \<Rightarrow> exn + string) \<Rightarrow> search_api \<Rightarrow> kind \<Rightarrow> string \<Rightarrow> int \<Rightarrow> bool \<Rightarrow> session \<Rightarrow> outcome" where
  "fetch_category netloc api k query n lit s =
     (let s1 = s\<lparr>queries := (queries s)(k \<mapsto> \<lparr>meta_q = query, meta_lit = lit, meta_engine = ''google''\<rparr>)\<rparr>
      in case serp_links netloc api (rejected s1) query n 0 ''google'' lit (Some k) of
           Inl e \<Rightarrow> (Some e, s1)
         | Inr ls \<Rightarrow> (None, s1\<lparr>links := (links s1)(k := ls),
                               start_index := (start_index s1)(k := n)\<rparr>))"

definition if_checked :: "bool \<Rightarrow> (session \<Rightarrow> outcome) \<Rightarrow> outcome \<Rightarrow> outcome" where
  "if_checked c f r =
     (case r of
        (Some e, s) \<Rightarrow> (Some e, s)
      | (None, s) \<Rightarrow> if c then f s else (None, s))"

text \<open>
  The \<open>Fetch links\<close> handler (source lines 132 to 155): nothing happens on an
  empty product name; otherwise the four link lists are emptied, \<open>n_results\<close>
  is stored, and the checked categories are fetched in the order tender,
  supplier, previous tenders, literature. The literature block asks for and
  stores twice the count.
\<close>

definition fetch_links ::
  "(string \<Rightarrow> exn + string) \<Rightarrow> search_api \<Rightarrow> string \<Rightarrow> int \<Rightarrow> checkboxes \<Rightarrow> session \<Rightarrow> outcome" where
  "fetch_links netloc api product results_per_query chk s =
     (if product = [] then (None, s)
      else
        let s0 = s\<lparr>links := (\<lambda>k. []), n_results := Some results_per_query\<rparr>;
            r1 = if_checked (chk_tender chk)
                   (fetch_category netloc api Kt (product @ '' procurement tender'')
                      results_per_query False) (None, s0);
            r2 = if_checked (chk_supplier chk)
                   (fetch_category netloc api Ks (product @ '' supplier Europe price'')
                      results_per_query False) r1;
            r3 = if_checked (chk_prev chk)
                   (fetch_category netloc api Kprev (''site:ted.europa.eu '' @ product)
                      results_per_query False) r2
        in if_checked (chk_lit chk)
             (fetch_category netloc api Klit (product @ '' tender specification'')
                (results_per_query * 2) True) r3)"

text \<open>
  \<open>link_picker\<close> (source lines 157 to 198). The pickers are drawn only when some
  link list is not empty (line 200), and the picker of a category returns at
  once when that category has neither links nor accepted URLs (line 161). The
  rows show \<open>combined\<close>: the links, then the accepted URLs not among them.
\<close>

definition any_links :: "session \<Rightarrow> bool" where
  "any_links s \<longleftrightarrow> links s Kt \<noteq> [] \<or> links s Ks \<noteq> [] \<or> links s Kprev \<noteq> [] \<or> links s Klit \<noteq> []"

definition picker_shown :: "session \<Rightarrow> kind \<Rightarrow> bool" where
  "picker_shown s k \<longleftrightarrow> any_links s \<and> \<not> (links s k = [] \<and> accepted s k = {})"

definition combined :: "session \<Rightarrow> kind \<Rightarrow> string set" where
  "combined s k = set (links s k) \<union> {u \<in> accepted s k. u \<notin> set (links s k)}"

text \<open>The accept button of a row (lines 171 to 174).\<close>

definition save_click :: "kind \<Rightarrow> string \<Rightarrow> session \<Rightarrow> session" where
  "save_click k url s =
     (if url \<notin> accepted s k
      then s\<lparr>accepted := (accepted s)(k := insert url (accepted s k))\<rparr>
      else s)"

text \<open>The reject button of a row (lines 175 to 180); \<open>list.remove\<close> takes out the first occurrence.\<close>

definition drop_click :: "kind \<Rightarrow> string \<Rightarrow> session \<Rightarrow> session" where
  "drop_click k url s =
     s\<lparr>accepted := (accepted s)(k := accepted s k - {url}),
       rejected := (rejected s)(k := insert url (rejected s k)),
       links := (links s)(k := (if url \<in> set (links s k) then remove1 url (links s k)
                                else links s k))\<rparr>"

text \<open>The add button (lines 181 to 186).\<close>

definition add_click :: "kind \<Rightarrow> string \<Rightarrow> session \<Rightarrow> session" where
  "add_click k new_url s =
     (if new_url \<noteq> [] then
        (if new_url \<notin> set (links s k) \<and> new_url \<notin> rejected s k
         then s\<lparr>links := (links s)(k := links s k @ [new_url])\<rparr>
         else s)
      else s)"

text \<open>
  The loop of the more-suggestions button (lines 193 to 195):
  \<^verbatim>\<open>for u in extra:
    if u not in links and u not in accepted:
        links.append(u)\<close>
\<close>

fun append_new :: "string set \<Rightarrow> string list \<Rightarrow> string list \<Rightarrow> string list" where
  "append_new acc ls [] = ls"
| "append_new acc ls (u # extra) =
     append_new acc (if u \<notin> set ls \<and> u \<notin> acc then ls @ [u] else ls) extra"

text \<open>The more-suggestions button (lines 187 to 197).\<close>

definition more_click ::
  "(string \<Rightarrow> exn + string) \<Rightarrow> search_api \<Rightarrow> kind \<Rightarrow> session \<Rightarrow> outcome" where
  "more_click netloc api k s =
     (case queries s k of
        None \<Rightarrow> (None, s)
      | Some meta \<Rightarrow>
          let start = start_index s k
          in (case n_results s of
                None \<Rightarrow> (Some KeyError, s)
              | Some n \<Rightarrow>
                  (case serp_links netloc api (rejected s) (meta_q meta) n start
                          (meta_engine meta) (meta_lit meta) (Some k) of
                     Inl e \<Rightarrow> (Some e, s)
                   | Inr extra \<Rightarrow>
                       (None, s\<lparr>links := (links s)(k := append_new (accepted s k) (links s k) extra),
                                start_index := (start_index s)(k := start_index s k + n)\<rparr>))))"

text \<open>
  One script run per click. A row button exists for the URLs of \<open>combined\<close>
  only, and every picker button only while the picker is drawn.
\<close>

datatype click =
    Fetch_links string int checkboxes search_api
  | Save kind string
  | Drop kind string
  | Add kind string
  | More kind search_api

fun script_run :: "(string \<Rightarrow> exn + string) \<Rightarrow> session \<Rightarrow> click \<Rightarrow> session" where
  "script_run netloc s (Fetch_links product n chk api) = snd (fetch_links netloc api product n chk s)"
| "script_run netloc s (Save k url) =
     (if picker_shown s k \<and> url \<in> combined s k then save_click k url s else s)"
| "script_run netloc s (Drop k url) =
     (if picker_shown s k \<and> url \<in> combined s k then drop_click k url s else s)"
| "script_run netloc s (Add k new_url) =
     (if picker_shown s k then add_click k new_url s else s)"
| "script_run netloc s (More k api) =
     (if picker_shown s k then snd (more_click netloc api k s) else s)"

definition run :: "(string \<Rightarrow> exn + string) \<Rightarrow> click list \<Rightarrow> session \<Rightarrow> session" where
  "run netloc clicks s = foldl (script_run netloc) s clicks"

section \<open>Question extraction\<close>

text \<open>
  \<^verbatim>\<open>def extract_questions(text):
    return [ln.strip() for ln in text.splitlines() if ln.lstrip().startswith(tuple("12345"))]\<close>
\<close>

definition digit_prefixes :: "string list" where
  "digit_prefixes = map (\<lambda>c. [c]) ''12345''"

definition extract_questions :: "string \<Rightarrow> string list" where
  "extract_questions text =
     [strip ln. ln \<leftarrow> splitlines text, startswith_any (lstrip ln) digit_prefixes]"

text \<open>The property the specification names: the first character that is not white space is one of the digits 1 to 5.\<close>

definition numbered :: "string \<Rightarrow> bool" where
  "numbered ln \<longleftrightarrow> (\<exists>d rest. d \<in> set ''12345'' \<and> dropWhile is_space ln = d # rest)"

section \<open>Statements about the curation\<close>

text \<open>The checkbox of a category.\<close>

fun selected :: "checkboxes \<Rightarrow> kind \<Rightarrow> bool" where
  "selected chk Kt = chk_tender chk"
| "selected chk Ks = chk_supplier chk"
| "selected chk Kprev = chk_prev chk"
| "selected chk Klit = chk_lit chk"

text \<open>No result page the search API answers with lists the same URL twice.\<close>

definition page_duplicate_free :: "search_api \<Rightarrow> bool" where
  "page_duplicate_free api \<longleftrightarrow>
     (\<forall>params rs. api params = Body (Json_object (Some rs)) \<longrightarrow> distinct (raw_links rs))"

fun first_page_duplicate_free :: "click \<Rightarrow> bool" where
  "first_page_duplicate_free (Fetch_links product n chk api) = page_duplicate_free api"
| "first_page_duplicate_free c = True"

text \<open>The candidates of every category are pairwise different and none is rejected.\<close>

definition candidates_clean :: "session \<Rightarrow> bool" where
  "candidates_clean s \<longleftrightarrow> (\<forall>k. distinct (links s k) \<and> set (links s k) \<inter> rejected s k = {})"

text \<open>No URL is both accepted and rejected in a category.\<close>

definition decisions_disjoint :: "session \<Rightarrow> bool" where
  "decisions_disjoint s \<longleftrightarrow> (\<forall>k. accepted s k \<inter> rejected s k = {})"

section \<open>Sample inputs\<close>

text \<open>A model response with three numbered lines, one of them indented and ended by \<open>\r\n\<close>.\<close>

definition sample_response :: string where
  "sample_response =
     ''QUESTIONS:'' @ [CHR 0x0A] @ ''1. Which sites?'' @ [CHR 0x0A] @ ''  2. What budget?  ''
       @ [CHR 0x0D, CHR 0x0A] @ ''Thanks.'' @ [CHR 0x0A] @ [CHR 0x0A] @ ''3. Which standard?'' @ [CHR 0x0A]"

text \<open>A page that declares French, and a page that declares no language.\<close>

definition french_page :: soup where
  "french_page = \<lparr>soup_html = Some (Some ''FR-ca''), soup_metas = [], soup_text = ''Appel d offres''\<rparr>"

definition plain_page :: soup where
  "plain_page = \<lparr>soup_html = Some None, soup_metas = [], soup_text = ''Call for tenders''\<rparr>"

text \<open>A page that declares British English in upper case.\<close>

definition english_page :: soup where
  "english_page = \<lparr>soup_html = Some (Some ''EN-gb''), soup_metas = [], soup_text = ''Invitation to tender''\<rparr>"

text \<open>
  Pages without a \<open>lang\<close> attribute that declare French in a meta element:
  \<open><meta http-equiv="content-language" content="fr">\<close> and
  \<open><meta http-equiv="Content-Language" content="fr">\<close>.
\<close>

definition meta_page :: soup where
  "meta_page =
     \<lparr>soup_html = Some None,
      soup_metas = [\<lparr>m_http_equiv = Some ''content-language'', m_content = Some ''fr''\<rparr>],
      soup_text = ''Avis de marche''\<rparr>"

definition capital_meta_page :: soup where
  "capital_meta_page =
     \<lparr>soup_html = Some None,
      soup_metas = [\<lparr>m_http_equiv = Some ''Content-Language'', m_content = Some ''fr''\<rparr>],
      soup_text = ''Avis de marche''\<rparr>"

text \<open>A search answer: a page listing the given URLs under \<open>link\<close>, whatever the request.\<close>

definition page_of :: "string list \<Rightarrow> search_api" where
  "page_of urls = (\<lambda>params. Body (Json_object (Some (map (\<lambda>u. \<lparr>r_link = Some u, r_url = None\<rparr>) urls))))"

definition tender_only :: checkboxes where
  "tender_only = \<lparr>chk_tender = True, chk_supplier = False, chk_prev = False, chk_lit = False\<rparr>"

definition literature_only :: checkboxes where
  "literature_only = \<lparr>chk_tender = False, chk_supplier = False, chk_prev = False, chk_lit = True\<rparr>"

text \<open>
  A stand-in for the URL parser in the samples: on a URL of the form
  \<open>scheme://location/path\<close> it gives the text between \<open>://\<close> and the next
  \<open>/\<close>, \<open>?\<close> or \<open>#\<close>, as \<open>urlparse\<close> does.
\<close>

definition sample_netloc :: "string \<Rightarrow> exn + string" where
  "sample_netloc u =
     Inr (takeWhile (\<lambda>c. c \<notin> set ''/?#'') (drop 3 (dropWhile (\<lambda>c. c \<noteq> CHR '':'') u)))"

text \<open>A category state for the more-suggestions button.\<close>

definition curated :: session where
  "curated =
     \<lparr>accepted = (\<lambda>k. {''https://c.ie''}), rejected = (\<lambda>k. {''https://r.ie''}),
      queries = [Kt \<mapsto> \<lparr>meta_q = ''ev charger procurement tender'', meta_lit = False,
                          meta_engine = ''google''\<rparr>],
      start_index = (\<lambda>k. 3), links = (\<lambda>k. [''https://a.ie'']), n_results = Some 5\<rparr>"

text \<open>Sessions: the clicks of a user, with the pages the search API answered.\<close>

definition accept_session :: "click list" where
  "accept_session =
     [Fetch_links ''ev charger'' 3 tender_only (page_of [''https://a.ie'']),
      Save Kt ''https://a.ie'']"

definition repeated_result_session :: "click list" where
  "repeated_result_session =
     [Fetch_links ''ev charger'' 3 tender_only (page_of [''https://a.ie'', ''https://a.ie'']),
      Drop Kt ''https://a.ie'',
      Save Kt ''https://a.ie'']"

definition curation_session :: "click list" where
  "curation_session =
     [Fetch_links ''ev charger'' 3 tender_only (page_of [''https://a.ie'', ''https://r.ie'', ''https://b.ie'']),
      Drop Kt ''https://r.ie'',
      Add Kt ''https://r.ie'',
      Save Kt ''https://a.ie'',
      More Kt (page_of [''https://r.ie'', ''https://c.ie''])]"

section \<open>Properties of question extraction\<close>

lemma startswith_iff: "startswith s p \<longleftrightarrow> (\<exists>r. s = p @ r)"
  by (induction s p rule: startswith.induct) auto

lemma startswith_any_digit: "startswith_any (lstrip ln) digit_prefixes \<longleftrightarrow> numbered ln"
  by (auto simp: startswith_any_def digit_prefixes_def list_ex_iff startswith_iff
      numbered_def lstrip_def)

lemma numbered_comprehension:
  "[strip ln. ln \<leftarrow> ls, startswith_any (lstrip ln) digit_prefixes] = map strip (filter numbered ls)"
  by (induction ls) (auto simp: startswith_any_digit)

lemma not_space_digit: "d \<in> set ''12345'' \<Longrightarrow> \<not> is_space d"
  by (auto simp: is_space_def)

lemma rstrip_Cons_keep: "\<not> is_space c \<Longrightarrow> rstrip (c # cs) = c # rstrip cs"
proof -
  assume c: "\<not> is_space c"
  have "dropWhile is_space (rev cs @ [c]) = dropWhile is_space (rev cs) @ [c]"
    using c by (simp add: dropWhile_append)
  then show ?thesis by (simp add: rstrip_def)
qed

lemma strip_numbered: "numbered ln \<Longrightarrow> \<exists>d rest. d \<in> set ''12345'' \<and> strip ln = d # rest"
proof -
  assume "numbered ln"
  then obtain d rest where d: "d \<in> set ''12345''" and l: "dropWhile is_space ln = d # rest"
    unfolding numbered_def by blast
  have "strip ln = d # rstrip rest"
    using l rstrip_Cons_keep [OF not_space_digit [OF d]] by (simp add: strip_def lstrip_def)
  with d show ?thesis by blast
qed

text \<open>
  C9. \<open>extract_questions\<close> returns, in their order, the stripped lines of the text
  whose content after the leading white space begins with a digit 1 to 5: the
  result is the image under \<open>strip\<close> of the numbered lines, it has one entry per
  numbered line (so three numbered lines give three questions), and every entry
  itself begins with such a digit.
\<close>

theorem extract_questions_numbered_lines:
  "extract_questions text = map strip (filter numbered (splitlines text))
   \<and> length (extract_questions text) = length (filter numbered (splitlines text))
   \<and> (\<forall>q \<in> set (extract_questions text). \<exists>d rest. d \<in> set ''12345'' \<and> q = d # rest)"
proof -
  have eq: "extract_questions text = map strip (filter numbered (splitlines text))"
    unfolding extract_questions_def by (rule numbered_comprehension)
  have hd: "\<forall>q \<in> set (map strip (filter numbered (splitlines text))).
              \<exists>d rest. d \<in> set ''12345'' \<and> q = d # rest"
    using strip_numbered by auto
  show ?thesis using eq hd by simp
qed

theorem extract_questions_numbered_lines_witness:
  "extract_questions sample_response = [''1. Which sites?'', ''2. What budget?'', ''3. Which standard?'']
   \<and> length (filter numbered (splitlines sample_response)) = 3"
proof -
  have v: "extract_questions sample_response
             = [''1. Which sites?'', ''2. What budget?'', ''3. Which standard?'']"
    unfolding sample_response_def by code_simp
  note t = extract_questions_numbered_lines [of sample_response]
  have l: "length (extract_questions sample_response)
             = length (filter numbered (splitlines sample_response))"
    using t by (rule conjunct1 [OF conjunct2])
  have "length (filter numbered (splitlines sample_response)) = 3"
    unfolding l [symmetric] v by simp
  with v show ?thesis by (intro conjI)
qed

section \<open>Properties of the domain filter\<close>





section \<open>Properties of the search client\<close>

text \<open>
  C1. The claim is that \<open>serp_links\<close> returns the empty list when the search
  request fails. The code has no handler there: when the request raises, or the
  body is not JSON, the exception leaves \<open>serp_links\<close>.
\<close>

theorem serp_links_raises:
  "serp_links netloc (\<lambda>p. Request_raises) rej q n start engine lit kind = Inl RequestException
   \<and> serp_links netloc (\<lambda>p. Body_not_json) rej q n start engine lit kind = Inl JSONDecodeError
   \<and> serp_links netloc (\<lambda>p. Request_raises) rej q n start engine lit kind \<noteq> Inr []"
  by (simp add: serp_links_def)

lemma serp_links_excludes_rejected:
  "serp_links netloc api rej q n start engine lit (Some k) = Inr ls \<Longrightarrow> set ls \<inter> rej k = {}"
  by (auto simp: serp_links_def Let_def split: http_reply.splits json_body.splits)

lemma distinct_py_prefix: "distinct xs \<Longrightarrow> distinct (py_prefix n xs)"
  by (simp add: py_prefix_def)

lemma length_py_prefix: "0 \<le> n \<Longrightarrow> int (length (py_prefix n xs)) \<le> n"
  by (simp add: py_prefix_def)

section \<open>Properties of the PDF excerpts\<close>

lemma join_pages_texts:
  "\<forall>p \<in> set ps. \<not> (\<exists>e. p = Extract_raises e) \<Longrightarrow>
   join_pages ps = Inr (concat (map (\<lambda>p. case p of Extract_text t \<Rightarrow> t | _ \<Rightarrow> []) ps))"
  by (induction ps rule: join_pages.induct) auto

text \<open>
  C10. The claim is that a failing extraction gives the empty text and no
  exception. The code joins the texts of the first three pages, a page
  without text counting as empty, but an exception of the reader or of a
  page's extraction leaves \<open>pdf_to_text\<close>.
\<close>

theorem pdf_to_text_raises:
  "pdf_to_text (\<lambda>f. Inl PdfReadError) file = Inl PdfReadError
   \<and> pdf_to_text (\<lambda>f. Inr [Extract_text ''Lot 1'', Extract_raises ValueError]) file = Inl ValueError
   \<and> pdf_to_text (\<lambda>f. Inr [Extract_text ''a'', Extract_none, Extract_text ''b'', Extract_text ''c'']) file
       = Inr ''ab''"
  by (simp add: pdf_to_text_def py_prefix_def)

section \<open>Properties of the content fetcher\<close>

lemma find_same:
  "list_all (\<lambda>x. P x \<longleftrightarrow> Q x) xs \<Longrightarrow> List.find P xs = List.find Q xs"
  by (induction xs) auto

lemma find_meta_lower_case:
  assumes "metas_lower_case sp"
  shows "List.find is_content_language (soup_metas sp) = find_meta sp"
proof -
  have "list_all (\<lambda>m. is_content_language m \<longleftrightarrow> m_http_equiv m = Some ''content-language'')
          (soup_metas sp)"
    using assms unfolding metas_lower_case_def list_all_iff
  proof (intro ballI)
    fix m
    assume a: "\<forall>m \<in> set (soup_metas sp).
                 is_content_language m \<longrightarrow> m_http_equiv m = Some ''content-language''"
      and m: "m \<in> set (soup_metas sp)"
    have l: "lower ''content-language'' = ''content-language''" by code_simp
    show "is_content_language m \<longleftrightarrow> m_http_equiv m = Some ''content-language''"
      using a m l by (auto simp: is_content_language_def)
  qed
  from find_same [OF this] show ?thesis by (simp add: find_meta_def)
qed

lemma is_english_declared:
  assumes "metas_lower_case sp"
  shows "is_english sp \<longleftrightarrow>
           \<not> (\<exists>l. declared_language sp = Some l \<and> \<not> startswith (lower l) ''en'')"
  unfolding is_english_def declared_language_def find_meta_lower_case [OF assms] Let_def
  by (auto simp: nonempty_def split: option.splits if_splits)

text \<open>
  What holds of \<open>fetch_text\<close>. It returns the empty string when the request or
  the parsing raises; on a fetched page it returns the empty string when
  english-only mode is on and \<open>is_english\<close> is false, and otherwise the visible
  text cut by \<open>[:max_chars]\<close>, which for a count \<open>max_chars\<close> is at most that many
  characters. On a page whose content-language meta elements write the header
  name in lower case, \<open>is_english\<close> is false exactly when the page declares a
  language that does not start with \<open>en\<close> once in lower case.
\<close>

lemma fetch_text_cases:
  "((\<exists>e. get_page url = Inl e) \<longrightarrow> fetch_text get_page parse only_eng url max_chars = [])
   \<and> (\<forall>body. get_page url = Inr body \<and> (\<exists>e. parse body = Inl e) \<longrightarrow>
          fetch_text get_page parse only_eng url max_chars = [])
   \<and> (\<forall>body sp. get_page url = Inr body \<and> parse body = Inr sp \<longrightarrow>
          fetch_text get_page parse only_eng url max_chars =
            (if only_eng \<and> \<not> is_english sp then [] else py_prefix max_chars (soup_text sp)))
   \<and> (\<forall>body sp. get_page url = Inr body \<and> parse body = Inr sp \<and> metas_lower_case sp \<longrightarrow>
          fetch_text get_page parse only_eng url max_chars =
            (if only_eng \<and> (\<exists>l. declared_language sp = Some l \<and> \<not> startswith (lower l) ''en'')
             then [] else py_prefix max_chars (soup_text sp)))
   \<and> (0 \<le> max_chars \<longrightarrow> int (length (fetch_text get_page parse only_eng url max_chars)) \<le> max_chars)"
proof -
  have 1: "(\<exists>e. get_page url = Inl e) \<longrightarrow> fetch_text get_page parse only_eng url max_chars = []"
    by (auto simp: fetch_text_def fetch_text_try_def)
  have 2: "\<forall>body. get_page url = Inr body \<and> (\<exists>e. parse body = Inl e) \<longrightarrow>
          fetch_text get_page parse only_eng url max_chars = []"
    by (auto simp: fetch_text_def fetch_text_try_def)
  have 3: "\<forall>body sp. get_page url = Inr body \<and> parse body = Inr sp \<longrightarrow>
          fetch_text get_page parse only_eng url max_chars =
            (if only_eng \<and> \<not> is_english sp then [] else py_prefix max_chars (soup_text sp))"
    by (auto simp: fetch_text_def fetch_text_try_def)
  have 4: "\<forall>body sp. get_page url = Inr body \<and> parse body = Inr sp \<and> metas_lower_case sp \<longrightarrow>
          fetch_text get_page parse only_eng url max_chars =
            (if only_eng \<and> (\<exists>l. declared_language sp = Some l \<and> \<not> startswith (lower l) ''en'')
             then [] else py_prefix max_chars (soup_text sp))"
    using 3 is_english_declared by auto
  have 5: "0 \<le> max_chars \<longrightarrow> int (length (fetch_text get_page parse only_eng url max_chars)) \<le> max_chars"
    by (auto simp: fetch_text_def fetch_text_try_def length_py_prefix split: sum.splits)
  from 1 2 3 4 5 show ?thesis by (intro conjI)
qed

lemma fetch_text_samples:
  "fetch_text (\<lambda>u. Inr ''<html lang=FR-ca>'') (\<lambda>b. Inr french_page) True ''https://ted.europa.eu/fr'' 8000 = []
   \<and> fetch_text (\<lambda>u. Inr ''<html lang=FR-ca>'') (\<lambda>b. Inr french_page) False ''https://ted.europa.eu/fr'' 5 = ''Appel''
   \<and> fetch_text (\<lambda>u. Inr ''<html lang=EN-gb>'') (\<lambda>b. Inr english_page) True ''https://etenders.gov.ie'' 10 = ''Invitation''
   \<and> fetch_text (\<lambda>u. Inr ''<meta>'') (\<lambda>b. Inr meta_page) True ''https://ted.europa.eu/fr'' 8000 = []
   \<and> fetch_text (\<lambda>u. Inr ''<html>'') (\<lambda>b. Inr plain_page) True ''https://etenders.gov.ie'' 4 = ''Call''
   \<and> fetch_text (\<lambda>u. Inl RequestException) (\<lambda>b. Inr plain_page) True ''https://etenders.gov.ie'' 4 = []
   \<and> fetch_text (\<lambda>u. Inr ''<html>'') (\<lambda>b. Inl ParserError) False ''https://etenders.gov.ie'' 4 = []"
proof -
  have fr: "lower ''FR-ca'' = ''fr-ca''" by code_simp
  have en: "lower ''EN-gb'' = ''en-gb''" by code_simp
  have f: "lower ''fr'' = ''fr''" by code_simp
  show ?thesis
    by (simp add: fetch_text_def fetch_text_try_def is_english_def attr_or_empty_def find_meta_def
        py_prefix_def french_page_def english_page_def meta_page_def plain_page_def fr en f)
qed

text \<open>
  C8. The claim is that in english-only mode a page declaring a language that
  does not start with \<open>en\<close> gives the empty string. The meta element is looked
  up by the exact string \<open>content-language\<close>: a page that declares French with
  \<open><meta http-equiv="Content-Language" content="fr">\<close> is not recognised and its
  text is returned, while the same declaration written in lower case gives
  the empty string.
\<close>

theorem fetch_text_capital_meta:
  "declared_language capital_meta_page = Some ''fr''
   \<and> \<not> startswith (lower ''fr'') ''en''
   \<and> fetch_text (\<lambda>u. Inr ''<meta>'') (\<lambda>b. Inr capital_meta_page) True ''https://ted.europa.eu/fr'' 8000
       = ''Avis de marche''
   \<and> declared_language meta_page = Some ''fr''
   \<and> fetch_text (\<lambda>u. Inr ''<meta>'') (\<lambda>b. Inr meta_page) True ''https://ted.europa.eu/fr'' 8000 = []"
proof -
  have c: "lower ''Content-Language'' = ''content-language''" by code_simp
  have l: "lower ''content-language'' = ''content-language''" by code_simp
  have f: "lower ''fr'' = ''fr''" by code_simp
  have d1: "declared_language capital_meta_page = Some ''fr''"
    by (simp add: declared_language_def capital_meta_page_def is_content_language_def
        attr_or_empty_def nonempty_def c)
  have d2: "declared_language meta_page = Some ''fr''"
    by (simp add: declared_language_def meta_page_def is_content_language_def
        attr_or_empty_def nonempty_def l)
  have n: "\<not> startswith (lower ''fr'') ''en''" by (simp add: f)
  have t1: "fetch_text (\<lambda>u. Inr ''<meta>'') (\<lambda>b. Inr capital_meta_page) True ''https://ted.europa.eu/fr'' 8000
              = ''Avis de marche''"
    by (simp add: fetch_text_def fetch_text_try_def is_english_def attr_or_empty_def find_meta_def
        py_prefix_def capital_meta_page_def)
  have t2: "fetch_text (\<lambda>u. Inr ''<meta>'') (\<lambda>b. Inr meta_page) True ''https://ted.europa.eu/fr'' 8000 = []"
    by (simp add: fetch_text_def fetch_text_try_def is_english_def attr_or_empty_def find_meta_def
        py_prefix_def meta_page_def f)
  from d1 n t1 d2 t2 show ?thesis by (intro conjI)
qed

section \<open>Properties of the initial fetch\<close>

lemma fetch_category_cursor:
  "fetch_category netloc api k query n lit s = (None, s') \<Longrightarrow>
     start_index s' = (start_index s)(k := n)"
  by (auto simp: fetch_category_def Let_def split: sum.splits)

lemma if_checked_None:
  "if_checked c f r = (None, s') \<Longrightarrow>
     \<exists>s. r = (None, s) \<and> (if c then f s = (None, s') else s' = s)"
  by (cases r) (auto simp: if_checked_def split: option.splits if_splits)

lemma if_checked_cursor:
  assumes "if_checked c (fetch_category netloc api k query n lit) r = (None, s')"
  shows "\<exists>s. r = (None, s) \<and> start_index s' = (if c then (start_index s)(k := n) else start_index s)"
proof -
  from if_checked_None [OF assms] obtain s where
    r: "r = (None, s)" and
    f: "if c then fetch_category netloc api k query n lit s = (None, s') else s' = s"
    by blast
  show ?thesis
  proof (cases c)
    case True
    with f have "fetch_category netloc api k query n lit s = (None, s')" by simp
    from fetch_category_cursor [OF this] r True show ?thesis by simp
  next
    case False
    with f r show ?thesis by simp
  qed
qed

text \<open>
  C6, as the code has it. When the \<open>Fetch links\<close> handler runs on a product
  name and completes, the cursor of every selected category is the requested
  count for tender, supplier and previous tenders, and twice the requested
  count for literature.
\<close>

theorem fetch_links_cursor:
  assumes "product \<noteq> []"
    and "fetch_links netloc api product n chk s = (None, s')"
    and "selected chk k"
  shows "start_index s' k = (if k = Klit then n * 2 else n)"
proof -
  let ?s0 = "s\<lparr>links := (\<lambda>k. []), n_results := Some n\<rparr>"
  let ?r1 = "if_checked (chk_tender chk)
               (fetch_category netloc api Kt (product @ '' procurement tender'') n False) (None, ?s0)"
  let ?r2 = "if_checked (chk_supplier chk)
               (fetch_category netloc api Ks (product @ '' supplier Europe price'') n False) ?r1"
  let ?r3 = "if_checked (chk_prev chk)
               (fetch_category netloc api Kprev (''site:ted.europa.eu '' @ product) n False) ?r2"
  have 4: "if_checked (chk_lit chk)
             (fetch_category netloc api Klit (product @ '' tender specification'') (n * 2) True) ?r3
           = (None, s')"
    using assms(1,2) by (simp add: fetch_links_def Let_def)
  from if_checked_cursor [OF 4] obtain s3 where
    r3: "?r3 = (None, s3)" and
    c4: "start_index s' = (if chk_lit chk then (start_index s3)(Klit := n * 2) else start_index s3)"
    by blast
  from if_checked_cursor [OF r3] obtain s2 where
    r2: "?r2 = (None, s2)" and
    c3: "start_index s3 = (if chk_prev chk then (start_index s2)(Kprev := n) else start_index s2)"
    by blast
  from if_checked_cursor [OF r2] obtain s1 where
    r1: "?r1 = (None, s1)" and
    c2: "start_index s2 = (if chk_supplier chk then (start_index s1)(Ks := n) else start_index s1)"
    by blast
  from if_checked_cursor [OF r1] have
    c1: "start_index s1 = (if chk_tender chk then (start_index ?s0)(Kt := n) else start_index ?s0)"
    by auto
  show ?thesis
    using assms(3) c1 c2 c3 c4 by (cases k) simp_all
qed

theorem fetch_links_cursor_witness:
  "''ev charger'' \<noteq> []
   \<and> fetch_links sample_netloc (page_of [''https://arxiv.org/abs/1'']) ''ev charger'' 3 literature_only
       session_defaults
     = (None, session_defaults
          \<lparr>queries := [Klit \<mapsto> \<lparr>meta_q = ''ev charger tender specification'', meta_lit = True,
                                 meta_engine = ''google''\<rparr>],
           start_index := (\<lambda>k. 0)(Klit := 6),
           links := (\<lambda>k. [])(Klit := [''https://arxiv.org/abs/1'']),
           n_results := Some 3\<rparr>)
   \<and> selected literature_only Klit
   \<and> start_index (session_defaults
          \<lparr>queries := [Klit \<mapsto> \<lparr>meta_q = ''ev charger tender specification'', meta_lit = True,
                                 meta_engine = ''google''\<rparr>],
           start_index := (\<lambda>k. 0)(Klit := 6),
           links := (\<lambda>k. [])(Klit := [''https://arxiv.org/abs/1'']),
           n_results := Some 3\<rparr>) Klit = 3 * 2"
proof -
  let ?s' = "session_defaults
          \<lparr>queries := [Klit \<mapsto> \<lparr>meta_q = ''ev charger tender specification'', meta_lit = True,
                                 meta_engine = ''google''\<rparr>],
           start_index := (\<lambda>k. 0)(Klit := 6),
           links := (\<lambda>k. [])(Klit := [''https://arxiv.org/abs/1'']),
           n_results := Some 3\<rparr>"
  have p: "''ev charger'' \<noteq> []" by simp
  have sch: "is_scholar_url sample_netloc ''https://arxiv.org/abs/1''"
    unfolding is_scholar_url_def sample_netloc_def TRUSTED_LIT_DOMAINS_def by code_simp
  have f: "fetch_links sample_netloc (page_of [''https://arxiv.org/abs/1'']) ''ev charger'' 3
             literature_only session_defaults = (None, ?s')"
    using sch
    by (simp add: fetch_links_def if_checked_def fetch_category_def serp_links_def raw_links_def
        link_or_url_def truthy_def page_of_def literature_only_def session_defaults_def)
  have c: "selected literature_only Klit" by (simp add: literature_only_def)
  from fetch_links_cursor [OF p f c] have "start_index ?s' Klit = 3 * 2" by simp
  with p f c show ?thesis by (intro conjI)
qed

text \<open>
  C6, counterexample. With the literature box checked and three results per
  query, the literature cursor is six after the initial fetch, not three.
\<close>

theorem fetch_links_literature_cursor:
  "start_index (snd (fetch_links sample_netloc (page_of [''https://arxiv.org/abs/1''])
      ''ev charger'' 3 literature_only session_defaults)) Klit = 6
   \<and> start_index (snd (fetch_links sample_netloc (page_of [''https://arxiv.org/abs/1''])
      ''ev charger'' 3 literature_only session_defaults)) Klit \<noteq> 3"
proof -
  have sch: "is_scholar_url sample_netloc ''https://arxiv.org/abs/1''"
    unfolding is_scholar_url_def sample_netloc_def TRUSTED_LIT_DOMAINS_def by code_simp
  show ?thesis
    using sch
    by (simp add: fetch_links_def if_checked_def fetch_category_def serp_links_def raw_links_def
        link_or_url_def truthy_def page_of_def literature_only_def session_defaults_def)
qed

section \<open>Properties of the more-suggestions button\<close>

lemma append_new_appends:
  "\<exists>new. append_new acc ls extra = ls @ new
         \<and> set new = set extra - set ls - acc \<and> distinct new"
proof (induction extra arbitrary: ls)
  case Nil
  then show ?case by simp
next
  case (Cons u extra)
  show ?case
  proof (cases "u \<notin> set ls \<and> u \<notin> acc")
    case True
    from Cons.IH [of "ls @ [u]"] obtain new where
      n: "append_new acc (ls @ [u]) extra = (ls @ [u]) @ new"
         "set new = set extra - set (ls @ [u]) - acc" "distinct new"
      by blast
    have "append_new acc ls (u # extra) = ls @ (u # new)" using True n(1) by simp
    moreover have "set (u # new) = set (u # extra) - set ls - acc" using True n(2) by auto
    moreover have "distinct (u # new)" using n(2,3) by auto
    ultimately show ?thesis by blast
  next
    case False
    from Cons.IH [of ls] obtain new where
      n: "append_new acc ls extra = ls @ new" "set new = set extra - set ls - acc" "distinct new"
      by blast
    have "append_new acc ls (u # extra) = ls @ new" using False n(1) by auto
    moreover have "set new = set (u # extra) - set ls - acc" using False n(2) by auto
    ultimately show ?thesis using n(3) by blast
  qed
qed

text \<open>
  What holds when the search returns. When the more-suggestions button runs for
  a category with a stored query and the search returns the list \<open>extra\<close>, the
  handler completes, the candidates become the old candidates followed by new
  URLs, the new URLs are exactly the returned ones that were neither
  candidates nor accepted, none of them is rejected, the cursor grows by the
  requested count \<open>n\<close> whatever was appended, and the accepted and rejected
  sets stay as they were.
\<close>

lemma more_click_appends:
  assumes "queries s k = Some meta"
    and "n_results s = Some n"
    and "serp_links netloc api (rejected s) (meta_q meta) n (start_index s k)
           (meta_engine meta) (meta_lit meta) (Some k) = Inr extra"
  shows "fst (more_click netloc api k s) = None
    \<and> (\<exists>new. links (snd (more_click netloc api k s)) k = links s k @ new
           \<and> set new = set extra - set (links s k) - accepted s k
           \<and> set new \<inter> rejected s k = {})
    \<and> start_index (snd (more_click netloc api k s)) k = start_index s k + n
    \<and> accepted (snd (more_click netloc api k s)) = accepted s
    \<and> rejected (snd (more_click netloc api k s)) = rejected s"
proof -
  have m: "more_click netloc api k s =
      (None, s\<lparr>links := (links s)(k := append_new (accepted s k) (links s k) extra),
               start_index := (start_index s)(k := start_index s k + n)\<rparr>)"
    using assms by (simp add: more_click_def)
  from append_new_appends [of "accepted s k" "links s k" extra] obtain new where
    n: "append_new (accepted s k) (links s k) extra = links s k @ new"
       "set new = set extra - set (links s k) - accepted s k"
    by blast
  have "set extra \<inter> rejected s k = {}"
    using serp_links_excludes_rejected [OF assms(3)] .
  with n(2) have r: "set new \<inter> rejected s k = {}" by auto
  have l: "\<exists>new. links (snd (more_click netloc api k s)) k = links s k @ new
           \<and> set new = set extra - set (links s k) - accepted s k
           \<and> set new \<inter> rejected s k = {}"
    using m n r by auto
  show ?thesis using m l by simp
qed

lemma more_click_appends_sample:
  "queries curated Kt = Some \<lparr>meta_q = ''ev charger procurement tender'', meta_lit = False,
                              meta_engine = ''google''\<rparr>
   \<and> n_results curated = Some 5
   \<and> serp_links sample_netloc
        (page_of [''https://a.ie'', ''https://b.ie'', ''https://c.ie'', ''https://r.ie'', ''https://b.ie'',
                  ''https://d.ie''])
        (rejected curated) ''ev charger procurement tender'' 5 (start_index curated Kt) ''google'' False (Some Kt)
      = Inr [''https://a.ie'', ''https://b.ie'', ''https://c.ie'', ''https://b.ie'']
   \<and> links (snd (more_click sample_netloc
        (page_of [''https://a.ie'', ''https://b.ie'', ''https://c.ie'', ''https://r.ie'', ''https://b.ie'',
                  ''https://d.ie'']) Kt curated)) Kt = [''https://a.ie'', ''https://b.ie'']
   \<and> start_index (snd (more_click sample_netloc
        (page_of [''https://a.ie'', ''https://b.ie'', ''https://c.ie'', ''https://r.ie'', ''https://b.ie'',
                  ''https://d.ie'']) Kt curated)) Kt = 3 + 5"
proof -
  let ?api = "page_of [''https://a.ie'', ''https://b.ie'', ''https://c.ie'', ''https://r.ie'', ''https://b.ie'',
                  ''https://d.ie'']"
  let ?meta = "\<lparr>meta_q = ''ev charger procurement tender'', meta_lit = False, meta_engine = ''google''\<rparr>"
  have q: "queries curated Kt = Some ?meta" by (simp add: curated_def)
  have n: "n_results curated = Some 5" by (simp add: curated_def)
  have e: "serp_links sample_netloc ?api (rejected curated) (meta_q ?meta) 5 (start_index curated Kt)
             (meta_engine ?meta) (meta_lit ?meta) (Some Kt)
           = Inr [''https://a.ie'', ''https://b.ie'', ''https://c.ie'', ''https://b.ie'']"
    by (simp add: serp_links_def raw_links_def link_or_url_def truthy_def page_of_def
        py_prefix_def curated_def)
  note t = more_click_appends [OF q n e]
  have c: "start_index (snd (more_click sample_netloc ?api Kt curated)) Kt = 3 + 5"
    using t by (simp add: curated_def)
  have v: "links (snd (more_click sample_netloc ?api Kt curated)) Kt = [''https://a.ie'', ''https://b.ie'']"
    using e by (simp add: more_click_def curated_def)
  from q n e v c show ?thesis by simp
qed

text \<open>
  C4. The claim is that more suggestions advances the cursor by the requested
  count whatever is appended. When the search request raises, \<open>serp_links\<close>
  has no handler (C1): the exception leaves the button's handler before the
  cursor is written, and the cursor stays where the initial fetch put it.
\<close>

theorem more_click_search_raises:
  "start_index (run sample_netloc
       [Fetch_links ''ev charger'' 3 tender_only (page_of [''https://a.ie''])] session_defaults) Kt = 3
   \<and> n_results (run sample_netloc
       [Fetch_links ''ev charger'' 3 tender_only (page_of [''https://a.ie''])] session_defaults) = Some 3
   \<and> fst (more_click sample_netloc (\<lambda>p. Request_raises) Kt (run sample_netloc
       [Fetch_links ''ev charger'' 3 tender_only (page_of [''https://a.ie''])] session_defaults))
      = Some RequestException
   \<and> start_index (run sample_netloc
       [Fetch_links ''ev charger'' 3 tender_only (page_of [''https://a.ie'']),
        More Kt (\<lambda>p. Request_raises)] session_defaults) Kt = 3"
  by (simp add: run_def fetch_links_def if_checked_def fetch_category_def serp_links_def
      raw_links_def link_or_url_def truthy_def py_prefix_def tender_only_def page_of_def
      session_defaults_def picker_shown_def any_links_def more_click_def)

section \<open>Properties of the add button\<close>

lemma add_click_known:
  "new_url = [] \<or> new_url \<in> set (links s k) \<or> new_url \<in> rejected s k \<Longrightarrow> add_click k new_url s = s"
  by (auto simp: add_click_def)

lemma add_click_unknown:
  "new_url \<noteq> [] \<Longrightarrow> new_url \<notin> set (links s k) \<Longrightarrow> new_url \<notin> rejected s k \<Longrightarrow>
   add_click k new_url s = s\<lparr>links := (links s)(k := links s k @ [new_url])\<rparr>"
  by (simp add: add_click_def)

text \<open>
  C5. The claim is that adding a URL that is already accepted changes nothing.
  The add button tests the candidates and the rejected set only: after a URL
  is accepted and a new initial fetch has replaced the candidates, adding that
  URL appends it to the candidates although it is in the accepted set.
\<close>

theorem add_click_accepted_url:
  "links (run sample_netloc
       [Fetch_links ''ev charger'' 3 tender_only (page_of [''https://a.ie'']),
        Save Kt ''https://a.ie'',
        Fetch_links ''ev charger'' 3 tender_only (page_of [''https://b.ie''])]
       session_defaults) Kt = [''https://b.ie'']
   \<and> accepted (run sample_netloc
       [Fetch_links ''ev charger'' 3 tender_only (page_of [''https://a.ie'']),
        Save Kt ''https://a.ie'',
        Fetch_links ''ev charger'' 3 tender_only (page_of [''https://b.ie''])]
       session_defaults) Kt = {''https://a.ie''}
   \<and> links (run sample_netloc
       [Fetch_links ''ev charger'' 3 tender_only (page_of [''https://a.ie'']),
        Save Kt ''https://a.ie'',
        Fetch_links ''ev charger'' 3 tender_only (page_of [''https://b.ie'']),
        Add Kt ''https://a.ie'']
       session_defaults) Kt = [''https://b.ie'', ''https://a.ie'']"
  by (simp add: run_def fetch_links_def if_checked_def fetch_category_def serp_links_def
      raw_links_def link_or_url_def truthy_def py_prefix_def tender_only_def page_of_def
      session_defaults_def picker_shown_def any_links_def combined_def save_click_def
      add_click_def)

section \<open>Invariants of the link curation\<close>

lemma raw_links_Nil: "raw_links [] = []"
  by (simp add: raw_links_def)

lemma distinct_raw_filter:
  "serp_links netloc api rej q n start engine lit kind = Inr ls \<Longrightarrow>
   page_duplicate_free api \<Longrightarrow> distinct ls"
  by (auto simp: serp_links_def Let_def page_duplicate_free_def distinct_py_prefix raw_links_Nil
      split: http_reply.splits json_body.splits option.splits)

lemma fetch_category_clean:
  assumes "page_duplicate_free api" and "candidates_clean s"
  shows "candidates_clean (snd (fetch_category netloc api k query n lit s))"
proof (cases "serp_links netloc api (rejected s) query n 0 ''google'' lit (Some k)")
  case (Inl e)
  then show ?thesis using assms(2) by (simp add: fetch_category_def candidates_clean_def)
next
  case (Inr ls)
  have "distinct ls" using distinct_raw_filter [OF Inr assms(1)] .
  moreover have "set ls \<inter> rejected s k = {}" using serp_links_excludes_rejected [OF Inr] .
  ultimately show ?thesis
    using assms(2) Inr by (simp add: fetch_category_def candidates_clean_def)
qed

lemma if_checked_clean:
  assumes "\<And>s. candidates_clean s \<Longrightarrow> candidates_clean (snd (f s))"
    and "candidates_clean (snd r)"
  shows "candidates_clean (snd (if_checked c f r))"
  using assms by (cases r) (auto simp: if_checked_def split: option.splits)

lemma fetch_links_clean:
  assumes "page_duplicate_free api" and "candidates_clean s"
  shows "candidates_clean (snd (fetch_links netloc api product n chk s))"
proof (cases "product = []")
  case True
  then show ?thesis using assms(2) by (simp add: fetch_links_def)
next
  case False
  have s0: "candidates_clean (snd (None :: exn option, s\<lparr>links := (\<lambda>k. []), n_results := Some n\<rparr>))"
    by (simp add: candidates_clean_def)
  note step = if_checked_clean [OF fetch_category_clean [OF assms(1)]]
  show ?thesis
    using False by (simp add: fetch_links_def Let_def) (intro step s0)
qed

lemma save_click_clean: "candidates_clean s \<Longrightarrow> candidates_clean (save_click k url s)"
  by (simp add: save_click_def candidates_clean_def)

lemma drop_click_clean: "candidates_clean s \<Longrightarrow> candidates_clean (drop_click k url s)"
  by (auto simp: drop_click_def candidates_clean_def)

lemma add_click_clean: "candidates_clean s \<Longrightarrow> candidates_clean (add_click k url s)"
  by (auto simp: add_click_def candidates_clean_def)

lemma more_click_clean:
  assumes "candidates_clean s"
  shows "candidates_clean (snd (more_click netloc api k s))"
proof (cases "queries s k")
  case None
  then show ?thesis using assms by (simp add: more_click_def)
next
  case (Some meta)
  show ?thesis
  proof (cases "n_results s")
    case None
    then show ?thesis using assms Some by (simp add: more_click_def)
  next
    case n: (Some n)
    show ?thesis
    proof (cases "serp_links netloc api (rejected s) (meta_q meta) n (start_index s k)
                    (meta_engine meta) (meta_lit meta) (Some k)")
      case (Inl e)
      then show ?thesis using assms Some n by (simp add: more_click_def)
    next
      case (Inr extra)
      from append_new_appends [of "accepted s k" "links s k" extra] obtain new where
        a: "append_new (accepted s k) (links s k) extra = links s k @ new"
           "set new = set extra - set (links s k) - accepted s k" "distinct new"
        by blast
      have "set extra \<inter> rejected s k = {}" using serp_links_excludes_rejected [OF Inr] .
      with a(2) have r: "set new \<inter> rejected s k = {}" by auto
      have d: "distinct (links s k @ new)" using assms a(2,3) by (auto simp: candidates_clean_def)
      have "set (links s k @ new) \<inter> rejected s k = {}"
        using assms r by (auto simp: candidates_clean_def)
      with d show ?thesis
        using assms Some n Inr a(1) by (simp add: more_click_def candidates_clean_def)
    qed
  qed
qed

lemma script_run_clean:
  "first_page_duplicate_free c \<Longrightarrow> candidates_clean s \<Longrightarrow> candidates_clean (script_run netloc s c)"
  by (cases c)
    (simp_all add: fetch_links_clean save_click_clean drop_click_clean add_click_clean
      more_click_clean)

lemma run_clean:
  "\<forall>c \<in> set clicks. first_page_duplicate_free c \<Longrightarrow> candidates_clean s \<Longrightarrow>
   candidates_clean (run netloc clicks s)"
  unfolding run_def
  by (induction clicks arbitrary: s) (simp_all add: script_run_clean)

lemma session_defaults_clean: "candidates_clean session_defaults"
  by (simp add: candidates_clean_def session_defaults_def)

lemmas run_simps = run_def fetch_links_def if_checked_def fetch_category_def serp_links_def
  raw_links_def link_or_url_def truthy_def py_prefix_def tender_only_def page_of_def
  session_defaults_def picker_shown_def any_links_def combined_def save_click_def
  drop_click_def add_click_def more_click_def

text \<open>
  C2, as the code has it. From the session defaults, after any clicks on Fetch
  links, accept, reject, add and more suggestions, where no page answered to a
  Fetch links click lists a URL twice, no candidate of a category is in its
  rejected set. (Accepted URLs are not part of the statement: accepting leaves
  the URL among the candidates.)
\<close>

theorem candidates_never_rejected:
  assumes "\<forall>c \<in> set clicks. first_page_duplicate_free c"
  shows "set (links (run netloc clicks session_defaults) k)
           \<inter> rejected (run netloc clicks session_defaults) k = {}"
  using run_clean [OF assms session_defaults_clean] by (simp add: candidates_clean_def)

theorem candidates_never_rejected_witness:
  "list_all first_page_duplicate_free curation_session
   \<and> links (run sample_netloc curation_session session_defaults) Kt
       = [''https://a.ie'', ''https://b.ie'', ''https://c.ie'']
   \<and> rejected (run sample_netloc curation_session session_defaults) Kt = {''https://r.ie''}
   \<and> set (links (run sample_netloc curation_session session_defaults) Kt)
        \<inter> rejected (run sample_netloc curation_session session_defaults) Kt = {}"
proof -
  have h: "list_all first_page_duplicate_free curation_session"
    by (simp add: curation_session_def page_duplicate_free_def page_of_def raw_links_def
        link_or_url_def truthy_def)
  then have h': "\<forall>c \<in> set curation_session. first_page_duplicate_free c"
    by (simp add: list_all_iff)
  have l: "links (run sample_netloc curation_session session_defaults) Kt
             = [''https://a.ie'', ''https://b.ie'', ''https://c.ie'']"
    by (simp add: curation_session_def run_simps)
  have r: "rejected (run sample_netloc curation_session session_defaults) Kt = {''https://r.ie''}"
    by (simp add: curation_session_def run_simps)
  note t = candidates_never_rejected [OF h', of sample_netloc Kt]
  from h l r t show ?thesis by (intro conjI)
qed

text \<open>
  C2, counterexample. After a fetch that returns one URL and a click on its
  accept button, the URL is accepted and still a candidate.
\<close>

theorem accepted_url_stays_candidate:
  "set (links (run sample_netloc accept_session session_defaults) Kt)
     \<inter> (accepted (run sample_netloc accept_session session_defaults) Kt
          \<union> rejected (run sample_netloc accept_session session_defaults) Kt)
   = {''https://a.ie''}"
  by (simp add: accept_session_def run_simps)

lemma fetch_category_decisions:
  "accepted (snd (fetch_category netloc api k query n lit s)) = accepted s
   \<and> rejected (snd (fetch_category netloc api k query n lit s)) = rejected s"
  by (simp add: fetch_category_def Let_def split: sum.splits)

lemma if_checked_decisions:
  assumes "\<And>s. accepted (snd (f s)) = accepted s \<and> rejected (snd (f s)) = rejected s"
  shows "accepted (snd (if_checked c f r)) = accepted (snd r)
         \<and> rejected (snd (if_checked c f r)) = rejected (snd r)"
  using assms by (cases r) (auto simp: if_checked_def split: option.splits)

lemma fetch_links_decisions:
  "accepted (snd (fetch_links netloc api product n chk s)) = accepted s
   \<and> rejected (snd (fetch_links netloc api product n chk s)) = rejected s"
proof (cases "product = []")
  case True
  then show ?thesis by (simp add: fetch_links_def)
next
  case False
  note step = if_checked_decisions [OF fetch_category_decisions]
  show ?thesis
    using False by (simp add: fetch_links_def Let_def step)
qed

lemma more_click_decisions:
  "accepted (snd (more_click netloc api k s)) = accepted s
   \<and> rejected (snd (more_click netloc api k s)) = rejected s"
  by (simp add: more_click_def Let_def split: option.splits sum.splits)

lemma script_run_decisions:
  assumes "candidates_clean s" and "decisions_disjoint s"
  shows "decisions_disjoint (script_run netloc s c)"
proof (cases c)
  case (Fetch_links product n chk api)
  then show ?thesis using assms(2) by (simp add: fetch_links_decisions decisions_disjoint_def)
next
  case (Save k url)
  show ?thesis
  proof (cases "picker_shown s k \<and> url \<in> combined s k \<and> url \<notin> accepted s k")
    case True
    then have "url \<in> set (links s k)" by (auto simp: combined_def)
    then have "url \<notin> rejected s k" using assms(1) by (auto simp: candidates_clean_def)
    then show ?thesis
      using assms(2) Save True by (auto simp: save_click_def decisions_disjoint_def)
  next
    case False
    then show ?thesis using assms(2) Save by (auto simp: save_click_def)
  qed
next
  case (Drop k url)
  then show ?thesis using assms(2) by (auto simp: drop_click_def decisions_disjoint_def)
next
  case (Add k url)
  then show ?thesis using assms(2) by (auto simp: add_click_def decisions_disjoint_def)
next
  case (More k api)
  then show ?thesis using assms(2) by (simp add: more_click_decisions decisions_disjoint_def)
qed

lemma run_decisions:
  "\<forall>c \<in> set clicks. first_page_duplicate_free c \<Longrightarrow> candidates_clean s \<Longrightarrow>
   decisions_disjoint s \<Longrightarrow> decisions_disjoint (run netloc clicks s)"
  unfolding run_def
  by (induction clicks arbitrary: s) (simp_all add: script_run_clean script_run_decisions)

lemma decisions_disjoint_without_repeats:
  "\<forall>c \<in> set clicks. first_page_duplicate_free c \<Longrightarrow>
   accepted (run netloc clicks session_defaults) k \<inter> rejected (run netloc clicks session_defaults) k = {}"
  using run_decisions [of clicks session_defaults netloc] session_defaults_clean
  by (simp add: decisions_disjoint_def session_defaults_def)

text \<open>
  C3. The claim is that no URL is ever both accepted and rejected. When the
  first result page lists a URL twice, rejecting it removes one of the two
  candidates only; the other can then be accepted, and the URL is in both sets.
  (While no first page repeats a URL the two sets stay disjoint:
  \<open>decisions_disjoint_without_repeats\<close>.)
\<close>

theorem accepted_and_rejected_overlap:
  "links (run sample_netloc (butlast repeated_result_session) session_defaults) Kt = [''https://a.ie'']
   \<and> rejected (run sample_netloc (butlast repeated_result_session) session_defaults) Kt = {''https://a.ie''}
   \<and> accepted (run sample_netloc repeated_result_session session_defaults) Kt
        \<inter> rejected (run sample_netloc repeated_result_session session_defaults) Kt
      = {''https://a.ie''}"
  by (simp add: repeated_result_session_def run_simps)

end
